theory Spec2Isabelle
  imports Main
begin

section \<open>Data model of StorageService.ts\<close>

text \<open>
  The service keeps two key-value stores: a log of transactions and an index of
  documents. The records below are the two TypeScript interfaces; the field \<open>id\<close> of
  each is written \<open>tx_id\<close> and \<open>idx_id\<close>, and \<open>type\<close> is written \<open>tx_type\<close>.
\<close>

datatype StorageServiceTransactionTypes = Create | Update | Destroy

record StorageServiceTransaction =
  tx_id :: string
  tx_type :: StorageServiceTransactionTypes
  staticId :: string
  diff :: string
  revisesId :: "string option"
  timestamp :: int

text \<open>
  The value \<open>applyPatch\<close> of the diff library returns is a string, or \<open>false\<close> when the
  patch does not fit its base. \<open>_materialize\<close> hands that value on unchecked, so it is
  what the field \<open>materializedView\<close> holds: \<open>Some text\<close> for a string, \<open>None\<close> for \<open>false\<close>.
\<close>

type_synonym view = "string option"

text \<open>
  \<open>deletedAt\<close> is \<open>null\<close> (\<open>None\<close>) or the date object \<open>destroy\<close> stores, given by its time.
\<close>

record StorageServiceIndex =
  idx_id :: string
  latestTxId :: string
  materializedView :: view
  createdAt :: int
  updatedAt :: int
  deletedAt :: "int option"

text \<open>
  The source throws \<open>Error('Not a valid UUID!')\<close>, here \<open>InvalidIdentifier\<close>, and
  \<open>Error('Note does not exist!')\<close>, here \<open>NotFound\<close>. \<open>TypeError\<close> is JavaScript's: reading
  a property of the \<open>null\<close> that a store returns for an absent key, \<open>JSON.stringify\<close> of a
  cyclic object, \<open>createPatch\<close> of a value that is not a string. A rejection of a store's
  promise is \<open>BackendError\<close>. \<open>CorruptChain\<close> and \<open>PatchConflict\<close> are the two remaining
  names of the specification's taxonomy; no statement of the source raises them.
\<close>

datatype error =
  InvalidIdentifier | NotFound | TypeError | BackendError | CorruptChain | PatchConflict

section \<open>External collaborators\<close>

text \<open>
  The imported libraries and the JavaScript runtime are parameters of the model:
  \<open>isUuid\<close> and \<open>uuid\<close> of uuidv4, \<open>createPatch\<close> and \<open>applyPatch\<close> of diff on strings,
  \<open>JSON.stringify(_, null, 2)\<close> and \<open>JSON.parse\<close>, and \<open>Date.now\<close>. \<open>stringify\<close> gives
  \<open>None\<close> where \<open>JSON.stringify\<close> throws (a cyclic object) or returns \<open>undefined\<close> (a value
  with nothing to serialise). The results of the successive calls of \<open>uuid()\<close> and of
  \<open>Date.now()\<close> are two arbitrary sequences, read at the counters the state keeps, and
  \<open>rejects\<close> tells which of the successive calls of a store are rejected.
\<close>

record 'd env =
  isUuid :: "string \<Rightarrow> bool"
  uuidGen :: "nat \<Rightarrow> string"
  clock :: "nat \<Rightarrow> int"
  stringify :: "'d \<Rightarrow> string option"
  parse :: "string \<Rightarrow> 'd option"
  createPatch :: "string \<Rightarrow> string \<Rightarrow> string \<Rightarrow> string"
  applyPatch :: "string \<Rightarrow> string \<Rightarrow> view"
  rejects :: "nat \<Rightarrow> bool"

text \<open>
  Modelled from the spec: the class \<open>Storage\<close> of \<open>../Storage\<close> is not among the sources.
  The specification describes it as a durable mapping from string key to a structured
  record with get, set and list-keys, whose errors pass through to the caller; \<open>get\<close> of
  an absent key gives \<open>null\<close> (\<open>None\<close>), which is what the test \<open>idx === null\<close> of \<open>show\<close>
  expects. The state keeps the two mappings and the trace of every call made to them, a
  rejected call included; a rejected \<open>set\<close> writes nothing.
\<close>

datatype access = TxGet string | TxSet string | IdxGet string | IdxSet string

record state =
  txStorage :: "string \<Rightarrow> StorageServiceTransaction option"
  idxStorage :: "string \<Rightarrow> StorageServiceIndex option"
  ticks :: nat
  draws :: nat
  trace :: "access list"

text \<open>
  An operation of the service returns a value or throws, and leaves a state either way.
\<close>

type_synonym 'a outcome = "(error + 'a) \<times> state"

definition store_call :: "'d env \<Rightarrow> access \<Rightarrow> state \<Rightarrow> bool \<times> state" where
  "store_call env a s = (\<not> rejects env (length (trace s)), s\<lparr>trace := trace s @ [a]\<rparr>)"

definition txStorage_get ::
  "'d env \<Rightarrow> string \<Rightarrow> state \<Rightarrow> StorageServiceTransaction option outcome" where
  "txStorage_get env k s0 =
     (let (accepted, s1) = store_call env (TxGet k) s0
      in if accepted then (Inr (txStorage s1 k), s1) else (Inl BackendError, s1))"

definition txStorage_set ::
  "'d env \<Rightarrow> string \<Rightarrow> StorageServiceTransaction \<Rightarrow> state \<Rightarrow> unit outcome" where
  "txStorage_set env k v s0 =
     (let (accepted, s1) = store_call env (TxSet k) s0
      in if accepted then (Inr (), s1\<lparr>txStorage := (txStorage s1)(k := Some v)\<rparr>)
         else (Inl BackendError, s1))"

definition idxStorage_get ::
  "'d env \<Rightarrow> string \<Rightarrow> state \<Rightarrow> StorageServiceIndex option outcome" where
  "idxStorage_get env k s0 =
     (let (accepted, s1) = store_call env (IdxGet k) s0
      in if accepted then (Inr (idxStorage s1 k), s1) else (Inl BackendError, s1))"

definition idxStorage_set ::
  "'d env \<Rightarrow> string \<Rightarrow> StorageServiceIndex \<Rightarrow> state \<Rightarrow> unit outcome" where
  "idxStorage_set env k v s0 =
     (let (accepted, s1) = store_call env (IdxSet k) s0
      in if accepted then (Inr (), s1\<lparr>idxStorage := (idxStorage s1)(k := Some v)\<rparr>)
         else (Inl BackendError, s1))"

definition Date_now :: "'d env \<Rightarrow> state \<Rightarrow> int \<times> state" where
  "Date_now env s = (clock env (ticks s), s\<lparr>ticks := Suc (ticks s)\<rparr>)"

definition uuid :: "'d env \<Rightarrow> state \<Rightarrow> string \<times> state" where
  "uuid env s = (uuidGen env (draws s), s\<lparr>draws := Suc (draws s)\<rparr>)"

section \<open>Strings\<close>

text \<open>\<open>id.split(':')\<close>: the fields between occurrences of the separator, never empty.\<close>

fun split_on :: "char \<Rightarrow> string \<Rightarrow> string list" where
  "split_on c [] = [[]]"
| "split_on c (x # xs) =
     (if x = c then [] # split_on c xs
      else (case split_on c xs of [] \<Rightarrow> [[x]] | r # rs \<Rightarrow> (x # r) # rs))"

text \<open>
  The pattern \<open>[idTimestamp, idUuid]\<close> binds \<open>idUuid\<close> to the second field, or to
  \<open>undefined\<close> (\<open>None\<close>) when there is none.
\<close>

fun second_field :: "'a list \<Rightarrow> 'a option" where
  "second_field (a # b # rest) = Some b"
| "second_field other = None"

text \<open>
  The template \<open>`${now}`\<close>: the value of \<open>Date.now()\<close>, an integer far below the size
  at which JavaScript switches to exponent notation, in decimal.
\<close>

fun digits :: "nat \<Rightarrow> string" where
  "digits n =
     (if n < 10 then [''0123456789'' ! n]
      else digits (n div 10) @ [''0123456789'' ! (n mod 10)])"

declare digits.simps [simp del]

definition number_string :: "int \<Rightarrow> string" where
  "number_string i = (if i < 0 then CHR ''-'' # digits (nat (- i)) else digits (nat i))"

section \<open>The service\<close>

definition materialize :: "'d env \<Rightarrow> string \<Rightarrow> string \<Rightarrow> view" where
  "materialize env v patch = applyPatch env v patch"

text \<open>
  \<open>ready\<close> awaits the \<open>ready()\<close> of the two stores, whose outcomes are its arguments here,
  logs them and returns \<open>true\<close>.
\<close>

definition ready :: "error + 'a \<Rightarrow> error + 'b \<Rightarrow> error + bool" where
  "ready txReady idxReady =
     (case txReady of
        Inl e \<Rightarrow> Inl e
      | Inr localForageTx \<Rightarrow>
          (case idxReady of
             Inl e \<Rightarrow> Inl e
           | Inr localForageIdx \<Rightarrow> Inr True))"

definition show_idx :: "'d env \<Rightarrow> string \<Rightarrow> state \<Rightarrow> StorageServiceIndex outcome" where
  "show_idx env i s0 =
     (if \<not> isUuid env i then (Inl InvalidIdentifier, s0)
      else (case idxStorage_get env i s0 of
              (Inl e, s1) \<Rightarrow> (Inl e, s1)
            | (Inr None, s1) \<Rightarrow> (Inl NotFound, s1)
            | (Inr (Some idx), s1) \<Rightarrow>
                if deletedAt idx \<noteq> None then (Inl NotFound, s1) else (Inr idx, s1)))"

text \<open>
  \<open>showTx\<close> checks only the second field of the id. An id without a colon has no second
  field: \<open>isUuid(undefined)\<close> is false. The result is what the store holds under the
  id, \<open>null\<close> included.
\<close>

definition showTx ::
  "'d env \<Rightarrow> string \<Rightarrow> state \<Rightarrow> StorageServiceTransaction option outcome" where
  "showTx env i s0 =
     (case second_field (split_on CHR '':'' i) of
        None \<Rightarrow> (Inl InvalidIdentifier, s0)
      | Some idUuid \<Rightarrow>
          if \<not> isUuid env idUuid then (Inl InvalidIdentifier, s0)
          else txStorage_get env i s0)"

definition createTx :: "'d env \<Rightarrow> string \<Rightarrow> string \<Rightarrow> state \<Rightarrow> string outcome" where
  "createTx env static patch s0 =
     (let (now, s1) = Date_now env s0;
          (u, s2) = uuid env s1;
          i = number_string now @ '':'' @ u;
          transaction = \<lparr>tx_id = i, tx_type = Create, staticId = static, diff = patch,
                         revisesId = None, timestamp = now\<rparr>
      in (case txStorage_set env i transaction s2 of
            (Inl e, s3) \<Rightarrow> (Inl e, s3)
          | (Inr written, s3) \<Rightarrow> (Inr i, s3)))"

text \<open>
  In \<open>create\<close> and \<open>update\<close>, \<open>JSON.stringify\<close> may throw, and \<open>createPatch\<close> throws on the
  \<open>undefined\<close> that \<open>JSON.stringify\<close> may return and on a stored view that is \<open>false\<close>:
  a \<open>TypeError\<close> in each case, before any write.
\<close>

definition create :: "'d env \<Rightarrow> 'd \<Rightarrow> state \<Rightarrow> string outcome" where
  "create env data s0 =
     (let (now, s1) = Date_now env s0;
          (i, s2) = uuid env s1
      in (case stringify env data of
            None \<Rightarrow> (Inl TypeError, s2)
          | Some dataStr \<Rightarrow>
              (let patch = createPatch env i [] dataStr
               in (case createTx env i patch s2 of
                     (Inl e, s3) \<Rightarrow> (Inl e, s3)
                   | (Inr txId, s3) \<Rightarrow>
                       (let idx = \<lparr>idx_id = i, latestTxId = txId,
                                   materializedView = materialize env [] patch,
                                   createdAt = now, updatedAt = now, deletedAt = None\<rparr>
                        in (case idxStorage_set env i idx s3 of
                              (Inl e, s4) \<Rightarrow> (Inl e, s4)
                            | (Inr written, s4) \<Rightarrow> (Inr i, s4)))))))"

text \<open>
  \<open>updateTx\<close> draws the new id before it reads \<open>existingEntry.staticId\<close>, which throws
  when the store gave \<open>null\<close>.
\<close>

definition updateTx :: "'d env \<Rightarrow> string \<Rightarrow> string \<Rightarrow> state \<Rightarrow> string outcome" where
  "updateTx env i patch s0 =
     (case showTx env i s0 of
        (Inl e, s1) \<Rightarrow> (Inl e, s1)
      | (Inr existingEntry, s1) \<Rightarrow>
          (let (revisionId, s2) = uuid env s1
           in (case existingEntry of
                 None \<Rightarrow> (Inl TypeError, s2)
               | Some entry \<Rightarrow>
                   (let (now, s3) = Date_now env s2;
                        transaction = \<lparr>tx_id = revisionId, tx_type = Update,
                                       staticId = staticId entry, diff = patch,
                                       revisesId = Some i, timestamp = now\<rparr>
                    in (case txStorage_set env revisionId transaction s3 of
                          (Inl e, s4) \<Rightarrow> (Inl e, s4)
                        | (Inr written, s4) \<Rightarrow> (Inr revisionId, s4))))))"

definition update :: "'d env \<Rightarrow> string \<Rightarrow> 'd \<Rightarrow> state \<Rightarrow> string outcome" where
  "update env i data s0 =
     (case show_idx env i s0 of
        (Inl e, s1) \<Rightarrow> (Inl e, s1)
      | (Inr idx, s1) \<Rightarrow>
          (case stringify env data of
             None \<Rightarrow> (Inl TypeError, s1)
           | Some dataStr \<Rightarrow>
               (case materializedView idx of
                  None \<Rightarrow> (Inl TypeError, s1)
                | Some base \<Rightarrow>
                    (let patch = createPatch env i base dataStr
                     in (case updateTx env (latestTxId idx) patch s1 of
                           (Inl e, s2) \<Rightarrow> (Inl e, s2)
                         | (Inr txId, s2) \<Rightarrow>
                             (let (now, s3) = Date_now env s2;
                                  updatedIdx = \<lparr>idx_id = i, latestTxId = txId,
                                                materializedView = materialize env base patch,
                                                createdAt = createdAt idx, updatedAt = now,
                                                deletedAt = None\<rparr>
                              in (case idxStorage_set env i updatedIdx s3 of
                                    (Inl e, s4) \<Rightarrow> (Inl e, s4)
                                  | (Inr written, s4) \<Rightarrow> (Inr i, s4))))))))"

text \<open>\<open>merge(idx, {deletedAt: new Date()})\<close> overwrites the one field of the entry read.\<close>

definition destroy :: "'d env \<Rightarrow> string \<Rightarrow> state \<Rightarrow> string outcome" where
  "destroy env i s0 =
     (case show_idx env i s0 of
        (Inl e, s1) \<Rightarrow> (Inl e, s1)
      | (Inr idx, s1) \<Rightarrow>
          (let (now, s2) = Date_now env s1;
               updatedIdx = idx\<lparr>deletedAt := Some now\<rparr>
           in (case idxStorage_set env i updatedIdx s2 of
                 (Inl e, s3) \<Rightarrow> (Inl e, s3)
               | (Inr written, s3) \<Rightarrow> (Inr i, s3))))"

definition destroyTx :: "string \<Rightarrow> state \<Rightarrow> string outcome" where
  "destroyTx i s = (Inr i, s)"

text \<open>
  The chain walk is a plain recursion along \<open>revisesId\<close>. Nothing bounds it, so it is a
  partial function: \<open>None\<close> is the walk that never returns.
\<close>

partial_function (option) followTxChainLinks ::
  "'d env \<Rightarrow> string \<Rightarrow> state \<Rightarrow> StorageServiceTransaction list outcome option" where
  "followTxChainLinks env txId s0 =
     (case showTx env txId s0 of
        (Inl e, s1) \<Rightarrow> Some (Inl e, s1)
      | (Inr None, s1) \<Rightarrow> Some (Inl TypeError, s1)
      | (Inr (Some txLink), s1) \<Rightarrow>
          (case revisesId txLink of
             None \<Rightarrow> Some (Inr [txLink], s1)
           | Some r \<Rightarrow>
               Option.bind (followTxChainLinks env r s1)
                 (\<lambda>walked. case walked of
                     (Inl e, s2) \<Rightarrow> Some (Inl e, s2)
                   | (Inr chain, s2) \<Rightarrow> Some (Inr (chain @ [txLink]), s2))))"

declare followTxChainLinks.simps [code]

definition getTxChain ::
  "'d env \<Rightarrow> string \<Rightarrow> state \<Rightarrow> StorageServiceTransaction list outcome option" where
  "getTxChain env i s0 =
     (case show_idx env i s0 of
        (Inl e, s1) \<Rightarrow> Some (Inl e, s1)
      | (Inr idx, s1) \<Rightarrow> followTxChainLinks env (latestTxId idx) s1)"

section \<open>A sample environment\<close>

text \<open>
  A concrete environment on which the service can be run. Identifiers have the shape
  8-4-4-4-12 of lower-case hexadecimal digits; the clock counts up from a fixed instant;
  a document is given by its JSON text; a patch carries the base text, a bar and the new
  text, and applies only to that base; no call of a store is rejected.
\<close>

definition hex_digit :: "char \<Rightarrow> bool" where
  "hex_digit c \<longleftrightarrow> c \<in> set ''0123456789abcdef''"

definition uuid_shaped :: "string \<Rightarrow> bool" where
  "uuid_shaped u \<longleftrightarrow>
     (let groups = split_on CHR ''-'' u
      in map length groups = [8, 4, 4, 4, 12] \<and> list_all (list_all hex_digit) groups)"

definition sample_uuids :: "string list" where
  "sample_uuids =
     [''11111111-1111-4111-8111-111111111111'',
      ''22222222-2222-4222-8222-222222222222'',
      ''33333333-3333-4333-8333-333333333333'',
      ''44444444-4444-4444-8444-444444444444'',
      ''55555555-5555-4555-8555-555555555555'',
      ''66666666-6666-4666-8666-666666666666'']"

definition sample_uuidGen :: "nat \<Rightarrow> string" where
  "sample_uuidGen n = sample_uuids ! (n mod 6)"

definition whole_text_patch :: "string \<Rightarrow> string \<Rightarrow> string \<Rightarrow> string" where
  "whole_text_patch label old new = old @ CHR ''|'' # new"

definition whole_text_apply :: "string \<Rightarrow> string \<Rightarrow> view" where
  "whole_text_apply base patch =
     (case drop (length base) patch of
        [] \<Rightarrow> None
      | c # new \<Rightarrow>
          if take (length base) patch = base \<and> c = CHR ''|'' then Some new else None)"

definition sample_env :: "string env" where
  "sample_env =
     \<lparr>isUuid = uuid_shaped, uuidGen = sample_uuidGen, clock = (\<lambda>n. 1000 + int n),
      stringify = Some, parse = Some,
      createPatch = whole_text_patch, applyPatch = whole_text_apply,
      rejects = (\<lambda>n. False)\<rparr>"

definition empty_state :: state where
  "empty_state =
     \<lparr>txStorage = Map.empty, idxStorage = Map.empty, ticks = 0, draws = 0, trace = []\<rparr>"

section \<open>Sample runs\<close>

text \<open>
  The states of the run \<open>create\<close>, \<open>update\<close> in the sample environment, starting from
  the empty stores: \<open>state1\<close> after \<open>create\<close> of \<open>data_a\<close>, \<open>state2\<close> after the
  \<open>update\<close> to \<open>data_b\<close>, and \<open>state2_read\<close> after one more read of the index entry.
\<close>

definition data_a :: string where
  \<open>data_a = ''{"title":"a"}''\<close>

definition data_b :: string where
  \<open>data_b = ''{"title":"b"}''\<close>

definition data_c :: string where
  \<open>data_c = ''{"title":"c"}''\<close>

definition id1 :: string where
  "id1 = ''11111111-1111-4111-8111-111111111111''"

definition rootTx :: StorageServiceTransaction where
  \<open>rootTx = \<lparr>tx_id = ''1001:22222222-2222-4222-8222-222222222222'', tx_type = Create,
             staticId = id1, diff = ''|{"title":"a"}'', revisesId = None, timestamp = 1001\<rparr>\<close>

definition idx1 :: StorageServiceIndex where
  "idx1 = \<lparr>idx_id = id1, latestTxId = tx_id rootTx, materializedView = Some data_a,
           createdAt = 1000, updatedAt = 1000, deletedAt = None\<rparr>"

definition state1 :: state where
  "state1 = \<lparr>txStorage = [tx_id rootTx \<mapsto> rootTx], idxStorage = [id1 \<mapsto> idx1],
             ticks = 2, draws = 2, trace = [TxSet (tx_id rootTx), IdxSet id1]\<rparr>"

definition tx2 :: StorageServiceTransaction where
  \<open>tx2 = \<lparr>tx_id = ''33333333-3333-4333-8333-333333333333'', tx_type = Update,
          staticId = id1, diff = ''{"title":"a"}|{"title":"b"}'',
          revisesId = Some (tx_id rootTx), timestamp = 1002\<rparr>\<close>

definition idx2 :: StorageServiceIndex where
  "idx2 = \<lparr>idx_id = id1, latestTxId = tx_id tx2, materializedView = Some data_b,
           createdAt = 1000, updatedAt = 1003, deletedAt = None\<rparr>"

definition state2 :: state where
  "state2 = \<lparr>txStorage = [tx_id rootTx \<mapsto> rootTx, tx_id tx2 \<mapsto> tx2],
             idxStorage = [id1 \<mapsto> idx2], ticks = 4, draws = 3,
             trace = [TxSet (tx_id rootTx), IdxSet id1,
                      IdxGet id1, TxGet (tx_id rootTx), TxSet (tx_id tx2), IdxSet id1]\<rparr>"

definition state2_read :: state where
  "state2_read = state2\<lparr>trace := trace state2 @ [IdxGet id1]\<rparr>"

text \<open>The states after \<open>destroy\<close> of the document in \<open>state1\<close> and in \<open>state2\<close>.\<close>

definition state1_destroyed :: state where
  "state1_destroyed =
     \<lparr>txStorage = [tx_id rootTx \<mapsto> rootTx],
      idxStorage = [id1 \<mapsto> idx1\<lparr>deletedAt := Some 1002\<rparr>],
      ticks = 3, draws = 2, trace = trace state1 @ [IdxGet id1, IdxSet id1]\<rparr>"

definition state2_destroyed :: state where
  "state2_destroyed =
     \<lparr>txStorage = [tx_id rootTx \<mapsto> rootTx, tx_id tx2 \<mapsto> tx2],
      idxStorage = [id1 \<mapsto> idx2\<lparr>deletedAt := Some 1004\<rparr>],
      ticks = 5, draws = 3, trace = trace state2 @ [IdxGet id1, IdxSet id1]\<rparr>"






text \<open>
  An environment whose \<open>applyPatch\<close> always fails, and the state \<open>create\<close> of \<open>data_a\<close>
  leaves in it.
\<close>

definition failing_env :: "string env" where
  "failing_env = sample_env\<lparr>applyPatch := (\<lambda>base patch. None)\<rparr>"

definition state_unchecked :: state where
  "state_unchecked = state1\<lparr>idxStorage := [id1 \<mapsto> idx1\<lparr>materializedView := None\<rparr>]\<rparr>"

section \<open>The identifier shape of the specification\<close>

text \<open>
  This definition follows the specification's words, not the source: a transaction
  identity is a creation timestamp, a colon and a random unique token. It is compared
  below with what \<open>showTx\<close> accepts.
\<close>

definition is_digit :: "char \<Rightarrow> bool" where
  "is_digit c \<longleftrightarrow> c \<in> set ''0123456789''"

definition spec_wellformed_txId :: "'d env \<Rightarrow> string \<Rightarrow> bool" where
  "spec_wellformed_txId env i \<longleftrightarrow>
     (case split_on CHR '':'' i of
        [stamp, token] \<Rightarrow> stamp \<noteq> [] \<and> list_all is_digit stamp \<and> isUuid env token
      | other \<Rightarrow> False)"

section \<open>What each operation computes\<close>

lemmas store_defs = store_call_def txStorage_get_def txStorage_set_def idxStorage_get_def
  idxStorage_set_def Date_now_def uuid_def

text \<open>
  \<open>show\<close> and \<open>showTx\<close>: when they return a value, and what they throw; neither writes.
\<close>

lemma show_idx_Inr:
  "show_idx env i s = (Inr idx, s') \<longleftrightarrow>
     isUuid env i \<and> \<not> rejects env (length (trace s)) \<and> idxStorage s i = Some idx \<and>
     deletedAt idx = None \<and> s' = s\<lparr>trace := trace s @ [IdxGet i]\<rparr>"
  by (auto simp: show_idx_def store_defs Let_def split: option.splits if_splits)

lemma show_idx_Inl:
  "show_idx env i s = (Inl e, s') \<Longrightarrow>
     e \<in> {InvalidIdentifier, NotFound, BackendError} \<and> txStorage s' = txStorage s \<and>
     idxStorage s' = idxStorage s"
  by (auto simp: show_idx_def store_defs Let_def split: option.splits if_splits)

lemma showTx_Inr:
  "showTx env i s = (Inr found, s') \<longleftrightarrow>
     (\<exists>idUuid. second_field (split_on CHR '':'' i) = Some idUuid \<and> isUuid env idUuid) \<and>
     \<not> rejects env (length (trace s)) \<and> found = txStorage s i \<and>
     s' = s\<lparr>trace := trace s @ [TxGet i]\<rparr>"
  by (auto simp: showTx_def store_defs Let_def split: option.splits if_splits)

lemma showTx_Inl:
  "showTx env i s = (Inl e, s') \<Longrightarrow>
     e \<in> {InvalidIdentifier, BackendError} \<and> txStorage s' = txStorage s \<and>
     idxStorage s' = idxStorage s"
  by (auto simp: showTx_def store_defs Let_def split: option.splits if_splits)



text \<open>
  The writing operations: the state each leaves when it returns a value, and the errors
  it can throw.
\<close>

lemma createTx_Inr:
  "createTx env static patch s = (Inr r, s') \<longleftrightarrow>
     \<not> rejects env (length (trace s)) \<and>
     r = number_string (clock env (ticks s)) @ '':'' @ uuidGen env (draws s) \<and>
     s' = \<lparr>txStorage = (txStorage s)
             (r \<mapsto> \<lparr>tx_id = r, tx_type = Create, staticId = static, diff = patch,
                     revisesId = None, timestamp = clock env (ticks s)\<rparr>),
           idxStorage = idxStorage s, ticks = Suc (ticks s), draws = Suc (draws s),
           trace = trace s @ [TxSet r]\<rparr>"
  by (cases s) (auto simp: createTx_def store_defs Let_def)

lemma createTx_Inl:
  "createTx env static patch s = (Inl e, s') \<Longrightarrow>
     e = BackendError \<and> txStorage s' = txStorage s \<and> idxStorage s' = idxStorage s"
  by (auto simp: createTx_def store_defs Let_def split: if_splits)

lemma updateTx_Inr:
  "updateTx env i patch s = (Inr r, s') \<longleftrightarrow>
     (\<exists>entry idUuid. second_field (split_on CHR '':'' i) = Some idUuid \<and> isUuid env idUuid \<and>
        \<not> rejects env (length (trace s)) \<and> txStorage s i = Some entry \<and>
        \<not> rejects env (Suc (length (trace s))) \<and>
        r = uuidGen env (draws s) \<and>
        s' = \<lparr>txStorage = (txStorage s)
                (r \<mapsto> \<lparr>tx_id = r, tx_type = Update, staticId = staticId entry, diff = patch,
                        revisesId = Some i, timestamp = clock env (ticks s)\<rparr>),
              idxStorage = idxStorage s, ticks = Suc (ticks s), draws = Suc (draws s),
              trace = trace s @ [TxGet i, TxSet r]\<rparr>)"
  by (cases s)
    (auto simp: updateTx_def showTx_def store_defs Let_def split: option.splits if_splits)

lemma updateTx_Inl:
  "updateTx env i patch s = (Inl e, s') \<Longrightarrow>
     e \<in> {InvalidIdentifier, TypeError, BackendError} \<and> txStorage s' = txStorage s \<and>
     idxStorage s' = idxStorage s"
  by (auto simp: updateTx_def showTx_def store_defs Let_def split: option.splits if_splits)

lemma create_Inr:
  "create env data s = (Inr r, s') \<longleftrightarrow>
     (\<exists>dataStr. stringify env data = Some dataStr \<and>
        \<not> rejects env (length (trace s)) \<and> \<not> rejects env (Suc (length (trace s))) \<and>
        r = uuidGen env (draws s) \<and>
        s' = \<lparr>txStorage = (txStorage s)
                (number_string (clock env (Suc (ticks s))) @ '':'' @ uuidGen env (Suc (draws s)) \<mapsto>
                  \<lparr>tx_id = number_string (clock env (Suc (ticks s))) @ '':'' @
                            uuidGen env (Suc (draws s)),
                   tx_type = Create, staticId = r, diff = createPatch env r [] dataStr,
                   revisesId = None, timestamp = clock env (Suc (ticks s))\<rparr>),
              idxStorage = (idxStorage s)
                (r \<mapsto>
                  \<lparr>idx_id = r,
                   latestTxId = number_string (clock env (Suc (ticks s))) @ '':'' @
                                uuidGen env (Suc (draws s)),
                   materializedView = applyPatch env [] (createPatch env r [] dataStr),
                   createdAt = clock env (ticks s), updatedAt = clock env (ticks s),
                   deletedAt = None\<rparr>),
              ticks = Suc (Suc (ticks s)), draws = Suc (Suc (draws s)),
              trace = trace s @
                [TxSet (number_string (clock env (Suc (ticks s))) @ '':'' @
                        uuidGen env (Suc (draws s))),
                 IdxSet r]\<rparr>)"
  by (cases s)
    (auto simp: create_def createTx_def store_defs materialize_def Let_def
      split: option.splits if_splits)

lemma create_Inl:
  "create env data s = (Inl e, s') \<Longrightarrow> e \<in> {TypeError, BackendError}"
  by (auto simp: create_def createTx_def store_defs Let_def split: option.splits if_splits)

lemma update_Inr:
  "update env i data s = (Inr r, s') \<longleftrightarrow>
     (\<exists>idx base dataStr entry idUuid.
        isUuid env i \<and> idxStorage s i = Some idx \<and> deletedAt idx = None \<and>
        stringify env data = Some dataStr \<and> materializedView idx = Some base \<and>
        second_field (split_on CHR '':'' (latestTxId idx)) = Some idUuid \<and> isUuid env idUuid \<and>
        txStorage s (latestTxId idx) = Some entry \<and>
        \<not> rejects env (length (trace s)) \<and> \<not> rejects env (Suc (length (trace s))) \<and>
        \<not> rejects env (Suc (Suc (length (trace s)))) \<and>
        \<not> rejects env (Suc (Suc (Suc (length (trace s))))) \<and>
        r = i \<and>
        s' = \<lparr>txStorage = (txStorage s)
                (uuidGen env (draws s) \<mapsto>
                  \<lparr>tx_id = uuidGen env (draws s), tx_type = Update,
                   staticId = staticId entry, diff = createPatch env i base dataStr,
                   revisesId = Some (latestTxId idx), timestamp = clock env (ticks s)\<rparr>),
              idxStorage = (idxStorage s)
                (i \<mapsto>
                  \<lparr>idx_id = i, latestTxId = uuidGen env (draws s),
                   materializedView = applyPatch env base (createPatch env i base dataStr),
                   createdAt = createdAt idx, updatedAt = clock env (Suc (ticks s)),
                   deletedAt = None\<rparr>),
              ticks = Suc (Suc (ticks s)), draws = Suc (draws s),
              trace = trace s @
                [IdxGet i, TxGet (latestTxId idx), TxSet (uuidGen env (draws s)), IdxSet i]\<rparr>)"
  by (cases s)
    (auto simp: update_def updateTx_def show_idx_def showTx_def store_defs materialize_def Let_def
      split: option.splits if_splits)

lemma update_Inl:
  "update env i data s = (Inl e, s') \<Longrightarrow>
     e \<in> {InvalidIdentifier, NotFound, TypeError, BackendError}"
  by (auto simp: update_def updateTx_def show_idx_def showTx_def store_defs Let_def
      split: option.splits if_splits)

lemma destroy_Inr:
  "destroy env i s = (Inr r, s') \<longleftrightarrow>
     (\<exists>idx. isUuid env i \<and> idxStorage s i = Some idx \<and> deletedAt idx = None \<and>
        \<not> rejects env (length (trace s)) \<and> \<not> rejects env (Suc (length (trace s))) \<and>
        r = i \<and>
        s' = \<lparr>txStorage = txStorage s,
              idxStorage = (idxStorage s)(i \<mapsto> idx\<lparr>deletedAt := Some (clock env (ticks s))\<rparr>),
              ticks = Suc (ticks s), draws = draws s,
              trace = trace s @ [IdxGet i, IdxSet i]\<rparr>)"
  by (cases s)
    (auto simp: destroy_def show_idx_def store_defs Let_def split: option.splits if_splits)

text \<open>
  The field separator: an id without a colon is one field, and the first colon ends the
  first field.
\<close>

lemma split_on_no_separator: "c \<notin> set xs \<Longrightarrow> split_on c xs = [xs]"
  by (induction xs) auto

lemma split_on_first_separator:
  "c \<notin> set xs \<Longrightarrow> split_on c (xs @ c # ys) = xs # split_on c ys"
  by (induction xs) auto

text \<open>
  Where \<open>uuid()\<close> gives ids without a colon, as UUIDs are, no \<open>update\<close> of a document
  succeeds after one has: the \<open>latestTxId\<close> it left has no second field for \<open>showTx\<close>.
\<close>

lemma no_update_after_update:
  assumes first: "update env i data s = (Inr r, s')"
    and plain: "CHR '':'' \<notin> set (uuidGen env (draws s))"
  shows "fst (update env i data2 s') \<in> {Inl InvalidIdentifier, Inl TypeError, Inl BackendError}"
proof -
  from first obtain idx where "idxStorage s' i = Some idx"
    and head: "latestTxId idx = uuidGen env (draws s)" and live: "deletedAt idx = None"
    by (auto simp: update_Inr)
  from plain head have "second_field (split_on CHR '':'' (latestTxId idx)) = None"
    by (simp add: split_on_no_separator)
  with \<open>idxStorage s' i = Some idx\<close> live show ?thesis
    by (auto simp: update_def updateTx_def show_idx_def showTx_def store_defs Let_def
        split: option.splits)
qed

text \<open>
  With a diff engine that reproduces the new text from the base a patch was computed
  from, the view stored by a \<open>create\<close> or an \<open>update\<close> that succeeds is the text of the
  data.
\<close>

lemma create_round_trip:
  assumes "create env data s = (Inr i, s')"
    and "\<forall>label base new. applyPatch env base (createPatch env label base new) = Some new"
  shows "map_option materializedView (idxStorage s' i) = Some (stringify env data)"
  using assms by (auto simp: create_Inr)

lemma update_round_trip:
  assumes "update env i data2 s = (Inr r, s')"
    and "\<forall>label base new. applyPatch env base (createPatch env label base new) = Some new"
  shows "map_option materializedView (idxStorage s' i) = Some (stringify env data2)"
  using assms by (auto simp: update_Inr)



section \<open>The sample runs, evaluated\<close>

lemma sample_env_simps [simp]:
  "isUuid sample_env = uuid_shaped" "uuidGen sample_env = sample_uuidGen"
  "clock sample_env = (\<lambda>n. 1000 + int n)" "stringify sample_env = Some"
  "parse sample_env = Some" "createPatch sample_env = whole_text_patch"
  "applyPatch sample_env = whole_text_apply" "rejects sample_env = (\<lambda>n. False)"
  by (simp_all add: sample_env_def)

lemma uuid_shaped_id1: "uuid_shaped id1"
  by (simp add: id1_def uuid_shaped_def hex_digit_def)

lemma sample_create: "create sample_env data_a empty_state = (Inr id1, state1)"
  by (simp add: create_def createTx_def store_defs materialize_def empty_state_def state1_def
      idx1_def rootTx_def id1_def data_a_def sample_uuidGen_def sample_uuids_def
      number_string_def digits.simps whole_text_patch_def whole_text_apply_def Let_def)

lemma show_idx_state1:
  "show_idx sample_env id1 state1 = (Inr idx1, state1\<lparr>trace := trace state1 @ [IdxGet id1]\<rparr>)"
  by (simp add: show_idx_def store_defs uuid_shaped_id1) (simp add: state1_def idx1_def)

lemma sample_update: "update sample_env id1 data_b state1 = (Inr id1, state2)"
  apply (simp add: update_def show_idx_state1)
  apply (simp add: idx1_def updateTx_def showTx_def rootTx_def uuid_shaped_def hex_digit_def
      store_defs materialize_def)
  apply (simp add: state1_def state2_def idx1_def idx2_def tx2_def rootTx_def id1_def data_a_def data_b_def
      sample_uuidGen_def sample_uuids_def whole_text_patch_def whole_text_apply_def Let_def
      store_defs materialize_def)
  done

lemma show_idx_state2: "show_idx sample_env id1 state2 = (Inr idx2, state2_read)"
  by (simp add: show_idx_def store_defs uuid_shaped_id1 state2_read_def)
    (simp add: state2_def idx2_def)

lemma showTx_tx2: "showTx sample_env (tx_id tx2) s = (Inl InvalidIdentifier, s)"
  by (simp add: showTx_def tx2_def)

lemma second_update: "update sample_env id1 data_c state2 = (Inl InvalidIdentifier, state2_read)"
  by (simp add: update_def show_idx_state2) (simp add: idx2_def data_b_def updateTx_def showTx_tx2)

lemma chain2: "getTxChain sample_env id1 state2 = Some (Inl InvalidIdentifier, state2_read)"
  apply (simp add: getTxChain_def show_idx_state2)
  apply (subst followTxChainLinks.simps)
  apply (simp add: idx2_def showTx_tx2)
  done

lemma sample_destroy: "destroy sample_env id1 state1 = (Inr id1, state1_destroyed)"
  by (simp add: destroy_def show_idx_state1 store_defs Let_def)
    (simp add: state1_def state1_destroyed_def)

lemma sample_destroy2: "destroy sample_env id1 state2 = (Inr id1, state2_destroyed)"
  by (simp add: destroy_def show_idx_state2 store_defs state2_read_def Let_def)
    (simp add: state2_def state2_destroyed_def)

lemma show_idx_destroyed:
  "fst (show_idx sample_env id1 state2_destroyed) = Inl NotFound"
  by (simp add: show_idx_def store_defs uuid_shaped_id1)
    (simp add: state2_destroyed_def)

lemma showTx_rootTx_destroyed:
  "fst (showTx sample_env (tx_id rootTx) state2_destroyed) = Inr (Some rootTx)"
  by (simp add: showTx_def store_defs rootTx_def tx2_def state2_destroyed_def
      uuid_shaped_def hex_digit_def)

lemma create_in_state1:
  "fst (create sample_env data_b state1) = Inr ''33333333-3333-4333-8333-333333333333''"
  by (simp add: create_def createTx_def store_defs Let_def sample_uuidGen_def sample_uuids_def)
    (simp add: state1_def)

lemma failing_create: "create failing_env data_a empty_state = (Inr id1, state_unchecked)"
  by (simp add: create_def createTx_def store_defs materialize_def failing_env_def sample_env_def
      empty_state_def state_unchecked_def state1_def idx1_def rootTx_def id1_def data_a_def
      sample_uuidGen_def sample_uuids_def number_string_def digits.simps whole_text_patch_def
      Let_def)

lemma failing_update:
  "update failing_env id1 data_b state_unchecked =
     (Inl TypeError, state_unchecked\<lparr>trace := trace state_unchecked @ [IdxGet id1]\<rparr>)"
  by (simp add: update_def show_idx_def store_defs failing_env_def sample_env_def
      uuid_shaped_id1 state_unchecked_def state1_def idx1_def)






section \<open>update: the value returned\<close>

text \<open>
  C1, as stated: \<open>update(id, data)\<close> returns the id of the new Update transaction, the
  value that becomes \<open>latestTxId\<close>. In the sample run \<open>update\<close> returns \<open>id1\<close>, the id of
  the document, while the new \<open>latestTxId\<close> is the id of \<open>tx2\<close>, a different string.
\<close>

theorem update_returns_transaction_id_counterexample:
  "update sample_env id1 data_b state1 = (Inr id1, state2) \<and>
   map_option latestTxId (idxStorage state2 id1) = Some (tx_id tx2) \<and>
   id1 \<noteq> tx_id tx2"
  by (simp add: sample_update) (simp add: state2_def idx2_def tx2_def id1_def)

text \<open>
  C1, amended: whenever \<open>update(id, data)\<close> succeeds it returns the document id it was
  given. The id of the Update transaction it appended, which the code takes from
  \<open>uuid()\<close>, is stored as the \<open>latestTxId\<close> of the index entry and is the key and the id
  of that transaction in the log.
\<close>

theorem update_returns_document_id:
  assumes "update env i data s = (Inr r, s')"
  shows "r = i \<and>
    (\<exists>idx tx. idxStorage s' i = Some idx \<and> latestTxId idx = uuidGen env (draws s) \<and>
       txStorage s' (latestTxId idx) = Some tx \<and> tx_id tx = latestTxId idx \<and>
       tx_type tx = Update)"
  using assms by (auto simp: update_Inr)

text \<open>The witness for C1: the \<open>update\<close> of the sample run.\<close>

theorem update_returns_document_id_witness:
  "update sample_env id1 data_b state1 = (Inr id1, state2) \<and>
   (\<exists>idx tx. idxStorage state2 id1 = Some idx \<and>
       latestTxId idx = uuidGen sample_env (draws state1) \<and>
       txStorage state2 (latestTxId idx) = Some tx \<and> tx_id tx = latestTxId idx \<and>
       tx_type tx = Update)"
  using update_returns_document_id [OF sample_update] sample_update by simp

section \<open>Transaction ids\<close>

text \<open>
  C2: every transaction written to the log has an id of the form timestamp, colon, UUID.
  \<open>createTx\<close> builds such an id, and \<open>showTx\<close> reads the UUID after the colon; \<open>updateTx\<close>
  uses the bare result of \<open>uuid()\<close>. In the sample run the transaction \<open>update\<close> writes
  has the id \<open>33333333-3333-4333-8333-333333333333\<close>, without timestamp or colon, and
  \<open>showTx\<close> of that id fails without reading the log.
\<close>

theorem updateTx_writes_bare_uuid:
  "update sample_env id1 data_b state1 = (Inr id1, state2) \<and>
   txStorage state2 ''33333333-3333-4333-8333-333333333333'' = Some tx2 \<and>
   tx_type tx2 = Update \<and>
   tx_id tx2 = ''33333333-3333-4333-8333-333333333333'' \<and>
   showTx sample_env (tx_id tx2) state2 = (Inl InvalidIdentifier, state2)"
  by (simp add: sample_update showTx_tx2) (simp add: state2_def tx2_def)

section \<open>The scenario create, update, update\<close>

text \<open>
  C3: after \<open>create\<close> of \<open>{"title":"a"}\<close> and the updates to \<open>{"title":"b"}\<close> and
  \<open>{"title":"c"}\<close>, \<open>readChain\<close> gives the three transactions root first. On the code the
  first update leaves a \<open>latestTxId\<close> that \<open>showTx\<close> rejects, so the second update fails
  with \<open>InvalidIdentifier\<close>, and so does \<open>getTxChain\<close> after the first update; the view
  that \<open>read\<close> gives stays \<open>{"title":"b"}\<close>.
\<close>

theorem scenario_second_update_fails:
  "create sample_env data_a empty_state = (Inr id1, state1) \<and>
   update sample_env id1 data_b state1 = (Inr id1, state2) \<and>
   update sample_env id1 data_c state2 = (Inl InvalidIdentifier, state2_read) \<and>
   getTxChain sample_env id1 state2 = Some (Inl InvalidIdentifier, state2_read) \<and>
   show_idx sample_env id1 state2 = (Inr idx2, state2_read) \<and>
   materializedView idx2 = Some data_b"
  by (simp add: sample_create sample_update second_update chain2 show_idx_state2)
    (simp add: idx2_def)

section \<open>destroy\<close>

text \<open>
  C4: after \<open>destroy(id)\<close>, \<open>read(id)\<close> fails with \<open>NotFound\<close> and every transaction of
  the document's chain is still returned by \<open>readTransaction\<close> of its id. In the sample
  run, before the \<open>destroy\<close> the head of the chain is \<open>tx2\<close>: the index entry points to
  it, it belongs to the document and it revises the root. After the \<open>destroy\<close>, \<open>read\<close>
  fails with \<open>NotFound\<close> and \<open>tx2\<close> is still in the log, but \<open>showTx\<close> of its id fails
  with \<open>InvalidIdentifier\<close>; only the root is returned.
\<close>

theorem destroy_leaves_update_transaction_unreadable:
  "update sample_env id1 data_b state1 = (Inr id1, state2) \<and>
   idxStorage state2 id1 = Some idx2 \<and> latestTxId idx2 = tx_id tx2 \<and>
   txStorage state2 (tx_id tx2) = Some tx2 \<and> staticId tx2 = id1 \<and>
   revisesId tx2 = Some (tx_id rootTx) \<and>
   destroy sample_env id1 state2 = (Inr id1, state2_destroyed) \<and>
   fst (show_idx sample_env id1 state2_destroyed) = Inl NotFound \<and>
   txStorage state2_destroyed (tx_id tx2) = Some tx2 \<and>
   showTx sample_env (tx_id tx2) state2_destroyed = (Inl InvalidIdentifier, state2_destroyed) \<and>
   fst (showTx sample_env (tx_id rootTx) state2_destroyed) = Inr (Some rootTx)"
  by (simp add: sample_update sample_destroy2 show_idx_destroyed showTx_tx2
      showTx_rootTx_destroyed)
    (simp add: state2_def state2_destroyed_def idx2_def tx2_def rootTx_def)

text \<open>
  C8: \<open>destroy(id)\<close> writes the stored index entry with \<open>deletedAt\<close> set to the current
  time and every other field as it was, under the same key, leaves every other entry
  alone and writes nothing to the transaction log: its only calls of a store are the read
  and the write of that index entry.
\<close>

theorem destroy_sets_only_deletedAt:
  assumes "destroy env i s = (Inr r, s')"
  shows "\<exists>idx idx'. idxStorage s i = Some idx \<and> deletedAt idx = None \<and>
      idx' = idx\<lparr>deletedAt := Some (clock env (ticks s))\<rparr> \<and>
      idxStorage s' = (idxStorage s)(i \<mapsto> idx') \<and>
      idx_id idx' = idx_id idx \<and> latestTxId idx' = latestTxId idx \<and>
      materializedView idx' = materializedView idx \<and> createdAt idx' = createdAt idx \<and>
      updatedAt idx' = updatedAt idx \<and> deletedAt idx' \<noteq> None \<and>
      txStorage s' = txStorage s \<and> trace s' = trace s @ [IdxGet i, IdxSet i]"
proof -
  from assms obtain idx where "idxStorage s i = Some idx" "deletedAt idx = None"
    and "s' = \<lparr>txStorage = txStorage s,
              idxStorage = (idxStorage s)(i \<mapsto> idx\<lparr>deletedAt := Some (clock env (ticks s))\<rparr>),
              ticks = Suc (ticks s), draws = draws s,
              trace = trace s @ [IdxGet i, IdxSet i]\<rparr>"
    by (auto simp: destroy_Inr)
  then show ?thesis by simp
qed

text \<open>The witness for C8: \<open>destroy\<close> of the document of \<open>state1\<close>.\<close>

theorem destroy_sets_only_deletedAt_witness:
  "destroy sample_env id1 state1 = (Inr id1, state1_destroyed) \<and>
   (\<exists>idx idx'. idxStorage state1 id1 = Some idx \<and> deletedAt idx = None \<and>
      idx' = idx\<lparr>deletedAt := Some (clock sample_env (ticks state1))\<rparr> \<and>
      idxStorage state1_destroyed = (idxStorage state1)(id1 \<mapsto> idx') \<and>
      idx_id idx' = idx_id idx \<and> latestTxId idx' = latestTxId idx \<and>
      materializedView idx' = materializedView idx \<and> createdAt idx' = createdAt idx \<and>
      updatedAt idx' = updatedAt idx \<and> deletedAt idx' \<noteq> None \<and>
      txStorage state1_destroyed = txStorage state1 \<and>
      trace state1_destroyed = trace state1 @ [IdxGet id1, IdxSet id1])"
  using sample_destroy destroy_sets_only_deletedAt [OF sample_destroy] by (rule conjI)

section \<open>Patch application\<close>

text \<open>
  C5, as stated: when \<open>applyPatch\<close> fails during \<open>create\<close> or \<open>update\<close>, the operation
  fails with \<open>PatchConflict\<close> and stores nothing corrupted. With an engine whose
  \<open>applyPatch\<close> fails, \<open>create\<close> succeeds and stores the failure value \<open>false\<close> as the
  \<open>materializedView\<close>.
\<close>

theorem failed_apply_raises_PatchConflict_counterexample:
  "applyPatch failing_env [] (createPatch failing_env id1 [] data_a) = None \<and>
   create failing_env data_a empty_state = (Inr id1, state_unchecked) \<and>
   map_option materializedView (idxStorage state_unchecked id1) = Some None"
  by (simp add: failing_create) (simp add: failing_env_def state_unchecked_def)

text \<open>
  C5, amended: \<open>create\<close> and \<open>update\<close> never fail with \<open>PatchConflict\<close>. Whenever one of
  them succeeds, the \<open>materializedView\<close> it has stored is the value \<open>applyPatch\<close> returned
  for the patch just computed, its failure value included, uninspected.
\<close>

theorem apply_result_stored_unchecked:
  "fst (create env data s) \<noteq> Inl PatchConflict \<and>
   fst (update env i data s) \<noteq> Inl PatchConflict \<and>
   (\<forall>r s'. create env data s = (Inr r, s') \<longrightarrow>
      (\<exists>dataStr. stringify env data = Some dataStr \<and>
         map_option materializedView (idxStorage s' r) =
           Some (applyPatch env [] (createPatch env r [] dataStr)))) \<and>
   (\<forall>r s' idx. update env i data s = (Inr r, s') \<longrightarrow> idxStorage s i = Some idx \<longrightarrow>
      (\<exists>base dataStr. materializedView idx = Some base \<and> stringify env data = Some dataStr \<and>
         map_option materializedView (idxStorage s' i) =
           Some (applyPatch env base (createPatch env i base dataStr))))"
proof (intro conjI allI impI)
  show "fst (create env data s) \<noteq> Inl PatchConflict"
    using create_Inl [of env data s _ "snd (create env data s)"]
    by (cases "fst (create env data s)") (auto simp: prod_eq_iff)
  show "fst (update env i data s) \<noteq> Inl PatchConflict"
    using update_Inl [of env i data s _ "snd (update env i data s)"]
    by (cases "fst (update env i data s)") (auto simp: prod_eq_iff)
next
  fix r s'
  assume "create env data s = (Inr r, s')"
  then show "\<exists>dataStr. stringify env data = Some dataStr \<and>
         map_option materializedView (idxStorage s' r) =
           Some (applyPatch env [] (createPatch env r [] dataStr))"
    by (auto simp: create_Inr)
next
  fix r s' idx
  assume "update env i data s = (Inr r, s')" and "idxStorage s i = Some idx"
  then show "\<exists>base dataStr. materializedView idx = Some base \<and>
         stringify env data = Some dataStr \<and>
         map_option materializedView (idxStorage s' i) =
           Some (applyPatch env base (createPatch env i base dataStr))"
    by (auto simp: update_Inr)
qed

text \<open>
  The witness for C5: a \<open>create\<close> and the \<open>update\<close> of the sample run, both from \<open>state1\<close>.
\<close>

theorem apply_result_stored_unchecked_witness:
  "fst (create sample_env data_b state1) = Inr ''33333333-3333-4333-8333-333333333333'' \<and>
   map_option materializedView
     (idxStorage (snd (create sample_env data_b state1))
        ''33333333-3333-4333-8333-333333333333'') =
     Some (applyPatch sample_env []
            (createPatch sample_env ''33333333-3333-4333-8333-333333333333'' [] data_b)) \<and>
   update sample_env id1 data_b state1 = (Inr id1, state2) \<and>
   idxStorage state1 id1 = Some idx1 \<and>
   map_option materializedView (idxStorage state2 id1) =
     Some (applyPatch sample_env data_a (createPatch sample_env id1 data_a data_b))"
proof -
  note main = apply_result_stored_unchecked [of sample_env data_b state1 id1]
  have made: "create sample_env data_b state1 =
      (Inr ''33333333-3333-4333-8333-333333333333'', snd (create sample_env data_b state1))"
    using create_in_state1 by (simp add: prod_eq_iff)
  have stored: "idxStorage state1 id1 = Some idx1"
    by (simp add: state1_def)
  have "materializedView idx1 = Some data_a"
    by (simp add: idx1_def)
  from main [THEN conjunct2, THEN conjunct2, THEN conjunct1, rule_format, OF made]
  have a: "map_option materializedView
     (idxStorage (snd (create sample_env data_b state1))
        ''33333333-3333-4333-8333-333333333333'') =
     Some (applyPatch sample_env []
            (createPatch sample_env ''33333333-3333-4333-8333-333333333333'' [] data_b))"
    by auto
  from main [THEN conjunct2, THEN conjunct2, THEN conjunct2, rule_format, OF sample_update stored]
    \<open>materializedView idx1 = Some data_a\<close>
  have b: "map_option materializedView (idxStorage state2 id1) =
     Some (applyPatch sample_env data_a (createPatch sample_env id1 data_a data_b))"
    by auto
  show ?thesis using create_in_state1 a sample_update stored b by (intro conjI)
qed

section \<open>Round trip\<close>

text \<open>
  C7: after \<open>update(id, data2)\<close> on a live document, \<open>read(id)\<close> gives a view that
  parses to \<open>data2\<close>. In the sample run the document is live after its first update and
  \<open>{"title":"c"}\<close> is serializable, yet \<open>update\<close> to it fails with \<open>InvalidIdentifier\<close>
  and \<open>read\<close> still gives the view \<open>{"title":"b"}\<close>.
\<close>

theorem update_of_updated_document_fails:
  "update sample_env id1 data_b state1 = (Inr id1, state2) \<and>
   show_idx sample_env id1 state2 = (Inr idx2, state2_read) \<and>
   Option.bind (stringify sample_env data_c) (parse sample_env) = Some data_c \<and>
   update sample_env id1 data_c state2 = (Inl InvalidIdentifier, state2_read) \<and>
   fst (show_idx sample_env id1 state2_read) = Inr idx2 \<and>
   Option.bind (materializedView idx2) (parse sample_env) = Some data_b \<and>
   data_b \<noteq> data_c"
proof -
  have "fst (show_idx sample_env id1 state2_read) = Inr idx2"
    by (simp add: show_idx_def store_defs uuid_shaped_id1)
      (simp add: state2_read_def state2_def idx2_def)
  moreover have "Option.bind (materializedView idx2) (parse sample_env) = Some data_b"
    "data_b \<noteq> data_c"
    by (simp_all add: idx2_def data_b_def data_c_def)
  ultimately show ?thesis
    by (simp add: sample_update show_idx_state2 second_update)
qed

section \<open>Identifier validation\<close>

text \<open>
  C9, as stated: every id that is not a well-formed identifier makes \<open>read\<close> and
  \<open>readTransaction\<close> fail with \<open>InvalidIdentifier\<close> before any lookup. The id
  \<open>yesterday:11111111-1111-4111-8111-111111111111\<close> is neither a UUID nor a timestamp,
  colon and UUID, yet \<open>showTx\<close> reads the log under it and returns what it holds, \<open>null\<close>.
\<close>

theorem showTx_accepts_malformed_counterexample:
  "\<not> spec_wellformed_txId sample_env ''yesterday:11111111-1111-4111-8111-111111111111'' \<and>
   \<not> isUuid sample_env ''yesterday:11111111-1111-4111-8111-111111111111'' \<and>
   showTx sample_env ''yesterday:11111111-1111-4111-8111-111111111111'' empty_state =
     (Inr None,
      empty_state\<lparr>trace := [TxGet ''yesterday:11111111-1111-4111-8111-111111111111'']\<rparr>)"
  by (simp add: spec_wellformed_txId_def is_digit_def showTx_def uuid_shaped_def hex_digit_def
      empty_state_def store_defs)

text \<open>
  C9, amended: \<open>read(id)\<close> fails with \<open>InvalidIdentifier\<close> for every id that \<open>isUuid\<close>
  rejects, and \<open>readTransaction(id)\<close> fails with \<open>InvalidIdentifier\<close> for every id without
  a colon and for every id whose second colon-separated field \<open>isUuid\<close> rejects; in each
  case before any lookup: the state is returned as it was, with no call of a store added
  to its trace. The timestamp field is not checked.
\<close>

theorem malformed_ids_rejected_before_lookup:
  "(\<not> isUuid env i \<longrightarrow> show_idx env i s = (Inl InvalidIdentifier, s)) \<and>
   (CHR '':'' \<notin> set i \<longrightarrow> showTx env i s = (Inl InvalidIdentifier, s)) \<and>
   (CHR '':'' \<notin> set stamp \<longrightarrow> CHR '':'' \<notin> set token \<longrightarrow> \<not> isUuid env token \<longrightarrow>
      showTx env (stamp @ '':'' @ token) s = (Inl InvalidIdentifier, s) \<and>
      showTx env (stamp @ '':'' @ token @ '':'' @ rest) s = (Inl InvalidIdentifier, s))"
  by (simp add: show_idx_def showTx_def split_on_no_separator split_on_first_separator)

text \<open>The witness for C9: the id \<open>not-a-uuid\<close>, alone and after a timestamp.\<close>

theorem malformed_ids_rejected_before_lookup_witness:
  "\<not> isUuid sample_env ''not-a-uuid'' \<and>
   show_idx sample_env ''not-a-uuid'' state1 = (Inl InvalidIdentifier, state1) \<and>
   CHR '':'' \<notin> set ''not-a-uuid'' \<and>
   showTx sample_env ''not-a-uuid'' state1 = (Inl InvalidIdentifier, state1) \<and>
   CHR '':'' \<notin> set ''1001'' \<and>
   showTx sample_env (''1001'' @ '':'' @ ''not-a-uuid'') state1 = (Inl InvalidIdentifier, state1)"
proof -
  have bad: "\<not> isUuid sample_env ''not-a-uuid''"
    by (simp add: uuid_shaped_def)
  have plain: "CHR '':'' \<notin> set ''not-a-uuid''" "CHR '':'' \<notin> set ''1001''"
    by simp_all
  note main = malformed_ids_rejected_before_lookup
    [of sample_env "''not-a-uuid''" state1 "''1001''" "''not-a-uuid''" "[]"]
  from main bad
  have a: "show_idx sample_env ''not-a-uuid'' state1 = (Inl InvalidIdentifier, state1)"
    by blast
  from main plain
  have b: "showTx sample_env ''not-a-uuid'' state1 = (Inl InvalidIdentifier, state1)"
    by blast
  from main plain bad
  have c: "showTx sample_env (''1001'' @ '':'' @ ''not-a-uuid'') state1 =
      (Inl InvalidIdentifier, state1)"
    by blast
  show ?thesis using bad a plain(1) b plain(2) c by (intro conjI)
qed

section \<open>The chain walk\<close>




section \<open>ready\<close>

text \<open>
  C10: \<open>ready()\<close> never returns \<open>false\<close>. Whatever the two stores resolve to, it returns
  \<open>true\<close>; its only other outcome is the error of a store whose \<open>ready()\<close> was rejected.
\<close>

theorem ready_never_false:
  "ready (Inr a) (Inr b) = Inr True \<and> ready txReady idxReady \<noteq> Inr False"
  by (simp add: ready_def split: sum.split)

end
